theory Spec2Isabelle
  imports Complex_Main
begin

section \<open>Python values, errors and tensors\<close>

text \<open>
  The development embeds \<^verbatim>\<open>pygod/detector/base.py\<close>: the abstract class
  \<^verbatim>\<open>Detector\<close> (construction, \<^verbatim>\<open>predict\<close>, the probability and
  confidence statistics, the threshold and the labels) and its subclass
  \<^verbatim>\<open>DeepDetector\<close> (construction, \<^verbatim>\<open>fit\<close>,
  \<^verbatim>\<open>decision_function\<close>, \<^verbatim>\<open>predict\<close>).

  Conventions. A Python exception is a value of type \<open>error\<close>; a method of a detector
  takes the detector and returns the outcome (\<open>Inl\<close> an exception, \<open>Inr\<close> the returned
  value) together with the detector as the call leaves it, so that what a failing call has
  already assigned stays visible. Floating-point scores are idealised as real numbers; the
  one place where the source divides by a quantity that can be zero keeps the IEEE outcomes
  (infinities and not-a-number) as separate values. One-dimensional tensors are lists.
\<close>

datatype error =
    ValueError string
  | TypeError
  | AttributeError string
  | IndexError
  | RuntimeError
  | ZeroDivisionError
  | NotFitted
  | OtherError string

text \<open>
  An instance attribute is absent (never assigned), \<^verbatim>\<open>None\<close>, or holds a value.
  \<^verbatim>\<open>Detector.__init__\<close> assigns \<^verbatim>\<open>decision_score_ = None\<close> and does not
  assign \<^verbatim>\<open>threshold_\<close> or \<^verbatim>\<open>label_\<close> at all.
\<close>

datatype 'a attr = Absent | PyNone | Val 'a

text \<open>The result of a float division followed by a clamp: a finite number or an IEEE special.\<close>

datatype fl = Fin real | PInf | NInf | NaN

definition fdiv :: "real \<Rightarrow> real \<Rightarrow> fl" where
  "fdiv x y =
     (if y \<noteq> 0 then Fin (x / y)
      else if 0 < x then PInf
      else if x < 0 then NInf
      else NaN)"

fun fclamp :: "fl \<Rightarrow> real \<Rightarrow> real \<Rightarrow> fl" where
  "fclamp (Fin x) lo hi = Fin (min (max x lo) hi)"
| "fclamp PInf lo hi = Fin hi"
| "fclamp NInf lo hi = Fin lo"
| "fclamp NaN lo hi = NaN"

text \<open>
  \<^verbatim>\<open>t[idx] = v\<close> for a tensor \<open>t\<close>, an index tensor \<open>idx\<close> and a value tensor \<open>v\<close>:
  an index out of range raises, a value of one row is broadcast, any other length
  mismatch raises; otherwise the writes happen in order.
\<close>

fun put_all :: "'a list \<Rightarrow> nat list \<Rightarrow> 'a list \<Rightarrow> 'a list" where
  "put_all t (i # idx) (v # vs) = put_all (t[i := v]) idx vs"
| "put_all t _ _ = t"

definition index_put :: "'a list \<Rightarrow> nat list \<Rightarrow> 'a list \<Rightarrow> error + 'a list" where
  "index_put t idx v =
     (if \<exists>i \<in> set idx. length t \<le> i then Inl IndexError
      else if length v = length idx then Inr (put_all t idx v)
      else if length v = 1 then Inr (put_all t idx (replicate (length idx) (hd v)))
      else Inl RuntimeError)"

text \<open>Python's \<^verbatim>\<open>int(x)\<close> on a float truncates towards zero.\<close>

definition py_int :: "real \<Rightarrow> int" where
  "py_int x = (if 0 \<le> x then \<lfloor>x\<rfloor> else \<lceil>x\<rceil>)"

section \<open>Library functions the statistics call\<close>

text \<open>
  Modelled from the spec: \<^verbatim>\<open>numpy.percentile\<close> is a library function, not code of
  \<^verbatim>\<open>src/\<close>. The spec describes it as the value at the given percentile with linear
  interpolation between order statistics: on the sorted data of length \<open>n\<close> the
  virtual index is \<open>(n - 1) * q / 100\<close>, and the result interpolates between the two
  order statistics around it. An empty array and a \<open>q\<close> outside \<open>[0, 100]\<close> are refused.
\<close>

definition percentile :: "real list \<Rightarrow> real \<Rightarrow> error + real" where
  "percentile a q =
     (if a = [] then Inl IndexError
      else if q < 0 \<or> 100 < q then Inl (ValueError ''Percentiles must be in the range [0, 100]'')
      else
        let s = sort a;
            n = length a;
            h = real (n - 1) * (q / 100);
            lo = nat \<lfloor>h\<rfloor>;
            hi = min (lo + 1) (n - 1);
            g = h - real lo
        in Inr (s ! lo + g * (s ! hi - s ! lo)))"

text \<open>
  Modelled from the spec: \<^verbatim>\<open>scipy.stats.binom.cdf\<close> is a library function, not
  code of \<^verbatim>\<open>src/\<close>. \<open>binom_cdf k n p\<close> is the spec's \<open>BinomialCDF(k; n, p)\<close>, the
  probability of at most \<open>k\<close> successes in \<open>n\<close> trials of success probability \<open>p\<close>.
\<close>

definition binom_cdf :: "int \<Rightarrow> nat \<Rightarrow> real \<Rightarrow> real" where
  "binom_cdf k n p =
     (if k < 0 then 0
      else (\<Sum>i \<leftarrow> [0 ..< Suc (min (nat k) n)]. real (n choose i) * p ^ i * (1 - p) ^ (n - i)))"

section \<open>The class \<^verbatim>\<open>Detector\<close>\<close>

record Detector =
  contamination :: real
  verbose :: int
  decision_score :: "real list option"
  threshold :: "real attr"
  label :: "int list attr"

text \<open>
  The fields \<open>decision_score\<close>, \<open>threshold\<close> and \<open>label\<close> are the attributes
  \<^verbatim>\<open>decision_score_\<close>, \<^verbatim>\<open>threshold_\<close> and \<^verbatim>\<open>label_\<close> of the source.
\<close>

definition Detector_init :: "real \<Rightarrow> int \<Rightarrow> error + Detector" where
  "Detector_init c v =
     (if \<not> (0 < c \<and> c \<le> 0.5) then Inl (ValueError ''contamination must be in (0, 0.5]'')
      else Inr \<lparr>contamination = c, verbose = v, decision_score = None,
                threshold = Absent, label = Absent\<rparr>)"

definition predict_prob_linear :: "('z Detector_scheme) \<Rightarrow> real list \<Rightarrow> error + fl list" where
  "predict_prob_linear d score =
     (case decision_score d of
        None \<Rightarrow> Inl (AttributeError ''min'')
      | Some train_score \<Rightarrow>
          if train_score = [] then Inl RuntimeError
          else
            let prob = map (\<lambda>s. s - Min (set train_score)) score;
                prob = map (\<lambda>p. fdiv p (Max (set train_score) - Min (set train_score))) prob;
                prob = map (\<lambda>p. fclamp p 0 1) prob
            in Inr prob)"

text \<open>
  \<^verbatim>\<open>_predict_prob\<close>. The \<^verbatim>\<open>'unify'\<close> branch rescales through
  \<^verbatim>\<open>torch.mean\<close>, \<^verbatim>\<open>torch.std\<close> and \<^verbatim>\<open>scipy.special.erf\<close>; it is
  taken as the parameter \<open>unify\<close> (from the training scores and the scores to the result).
\<close>

definition predict_prob ::
  "(real list option \<Rightarrow> real list \<Rightarrow> error + fl list) \<Rightarrow>
   ('z Detector_scheme) \<Rightarrow> real list \<Rightarrow> string \<Rightarrow> error + fl list" where
  "predict_prob unify d score method =
     (if method = ''linear'' then predict_prob_linear d score
      else if method = ''unify'' then unify (decision_score d) score
      else Inl (ValueError method))"

definition predict_conf :: "('z Detector_scheme) \<Rightarrow> real list \<Rightarrow> error + real list" where
  "predict_conf d score =
     (case decision_score d of
        None \<Rightarrow> Inl TypeError
      | Some train \<Rightarrow>
          let n = length train;
              k = int n - py_int (real n * contamination d);
              n_ins = map (\<lambda>s. length (filter (\<lambda>t. t \<le> s) train)) score;
              post_prob = map (\<lambda>c. (1 + real c) / (2 + real n)) n_ins;
              conf = map (\<lambda>p. 1 - binom_cdf k n p) post_prob
          in (case threshold d of
                Absent \<Rightarrow> Inl (AttributeError ''threshold_'')
              | PyNone \<Rightarrow> Inl TypeError
              | Val th \<Rightarrow>
                  let pred = map (\<lambda>s. if s > th then (1::int) else 0) score
                  in Inr (map (\<lambda>(p, c). if p = 0 then 1 - c else c) (zip pred conf))))"

definition process_decision_score ::
  "('z Detector_scheme) \<Rightarrow> (error + unit) \<times> ('z Detector_scheme)" where
  "process_decision_score d =
     (case decision_score d of
        None \<Rightarrow> (Inl TypeError, d)
      | Some sc \<Rightarrow>
          (case percentile sc (100 * (1 - contamination d)) of
             Inl e \<Rightarrow> (Inl e, d)
           | Inr th \<Rightarrow>
               (Inr (),
                d\<lparr>threshold := Val th,
                  label := Val (map (\<lambda>s. if s > th then 1 else 0) sc)\<rparr>)))"

text \<open>
  Modelled from the spec: \<^verbatim>\<open>is_fitted\<close> lives in \<^verbatim>\<open>pygod/utils\<close>, which is
  not under \<^verbatim>\<open>src/\<close>. The spec: \<^verbatim>\<open>predict\<close> "fails with a not-fitted condition
  if Threshold/Label/DecisionScore are absent".
\<close>

definition is_fitted :: "('z Detector_scheme) \<Rightarrow> error + unit" where
  "is_fitted d =
     (case (decision_score d, threshold d, label d) of
        (Some _, Val _, Val _) \<Rightarrow> Inr ()
      | _ \<Rightarrow> Inl NotFitted)"

section \<open>The class \<^verbatim>\<open>DeepDetector\<close>: data\<close>

text \<open>
  \<^verbatim>\<open>hid_dim\<close> is an integer or a pair (the source tests
  \<^verbatim>\<open>type(self.hid_dim) is tuple\<close>); the embedding buffer is one matrix or a pair of
  matrices (\<^verbatim>\<open>type(self.emb) is tuple\<close>); the loss a forward pass returns is one
  scalar or, under \<^verbatim>\<open>gan\<close>, a pair indexed \<^verbatim>\<open>loss[0]\<close>, \<^verbatim>\<open>loss[1]\<close>.
\<close>

datatype hid = HidInt nat | HidTuple nat nat

datatype emb = Emb "real list list" | EmbPair "real list list" "real list list"

datatype loss = Scalar real | LossPair real real

text \<open>
  The calls \<^verbatim>\<open>fit\<close> makes on its optimizers and losses:
  \<^verbatim>\<open>o.zero_grad()\<close>, \<^verbatim>\<open>loss.backward()\<close> or \<^verbatim>\<open>loss[i].backward()\<close>,
  and \<^verbatim>\<open>o.step()\<close>, for the optimizers \<^verbatim>\<open>optimizer\<close>, \<^verbatim>\<open>opt_g\<close>
  (over the generator's parameters) and \<^verbatim>\<open>opt_d\<close> (over the discriminator's).
\<close>

datatype optimizer = Optimizer | Opt_g | Opt_d

datatype lossref = Whole | Component nat

datatype torch_call = ZeroGrad optimizer | Backward lossref | Step optimizer

text \<open>
  The fields follow \<^verbatim>\<open>DeepDetector.__init__\<close>. \<open>model\<close> is \<^verbatim>\<open>None\<close> until
  \<^verbatim>\<open>fit\<close> assigns it; \<open>emb\<close> is assigned (\<^verbatim>\<open>None\<close>) only when
  \<^verbatim>\<open>save_emb\<close> is set. \<open>ext\<close> stands for what the base class only hands on to its
  subclass: \<^verbatim>\<open>act\<close>, \<^verbatim>\<open>backbone\<close>, \<^verbatim>\<open>kwargs\<close> and the attributes a
  subclass adds.
\<close>

record ('m, 'x) DeepDetector = Detector +
  in_dim :: "nat option"
  num_nodes :: "nat option"
  hid_dim :: hid
  num_layers :: int
  dropout :: real
  weight_decay :: real
  lr :: real
  epoch :: int
  device :: string
  batch_size :: int
  gan :: bool
  num_neigh :: "int list"
  model :: "'m option"
  save_emb :: bool
  emb :: "emb attr"
  compile_model :: bool
  ext :: 'x

text \<open>
  What \<^verbatim>\<open>base.py\<close> calls and does not define: the abstract methods of the subclass
  (\<^verbatim>\<open>process_graph\<close>, \<^verbatim>\<open>init_model\<close>, \<^verbatim>\<open>forward_model\<close>), the
  sampler \<^verbatim>\<open>NeighborLoader\<close> (the batches of pass number \<open>i\<close>; each batch has a
  \<^verbatim>\<open>batch_size\<close> and an \<^verbatim>\<open>n_id\<close>), \<^verbatim>\<open>data.x.shape\<close>, and the torch
  operations on the model. Each may raise. A subclass method reads the detector and returns
  what it assigns: \<^verbatim>\<open>process_graph\<close> the subclass attributes,
  \<^verbatim>\<open>init_model\<close> the model and \<^verbatim>\<open>self.emb\<close>, \<^verbatim>\<open>forward_model\<close> the
  loss, the scores, the model and the subclass attributes. As in the subclasses under
  \<^verbatim>\<open>src/\<close>, none of them assigns a construction parameter or one of
  \<^verbatim>\<open>decision_score_\<close>, \<^verbatim>\<open>threshold_\<close>, \<^verbatim>\<open>label_\<close>. The logger only
  reports and is left out.
\<close>

record ('g, 'b, 'm, 'x) hooks =
  x_shape :: "'g \<Rightarrow> nat \<times> nat"
  process_graph :: "('m, 'x) DeepDetector \<Rightarrow> 'g \<Rightarrow> error + 'x"
  NeighborLoader :: "'g \<Rightarrow> int list \<Rightarrow> int \<Rightarrow> error + (nat \<Rightarrow> 'b list)"
  sd_batch_size :: "'b \<Rightarrow> nat"
  sd_n_id :: "'b \<Rightarrow> nat list"
  init_model :: "('m, 'x) DeepDetector \<Rightarrow> error + 'm \<times> emb attr"
  compile :: "'m \<Rightarrow> 'm"
  model_train :: "'m \<Rightarrow> 'm"
  model_eval :: "'m \<Rightarrow> 'm"
  forward_model :: "('m, 'x) DeepDetector \<Rightarrow> 'b \<Rightarrow> error + loss \<times> real list \<times> 'm \<times> 'x"
  model_emb :: "'m \<Rightarrow> emb option"
  torch :: "torch_call \<Rightarrow> loss \<Rightarrow> 'm \<Rightarrow> error + 'm"
  epoch_loss_g :: "'x \<Rightarrow> real option"
  epoch_loss_d :: "'x \<Rightarrow> real option"
  unify_prob :: "real list option \<Rightarrow> real list \<Rightarrow> error + fl list"

section \<open>\<^verbatim>\<open>DeepDetector.__init__\<close>\<close>

datatype neigh_arg = NeighInt int | NeighList "int list" | NeighOther

record init_args =
  arg_hid_dim :: hid
  arg_num_layers :: int
  arg_dropout :: real
  arg_weight_decay :: real
  arg_contamination :: real
  arg_lr :: real
  arg_epoch :: int
  arg_gpu :: int
  arg_batch_size :: int
  arg_num_neigh :: neigh_arg
  arg_verbose :: int
  arg_gan :: bool
  arg_save_emb :: bool
  arg_compile_model :: bool

text \<open>
  \<^verbatim>\<open>validate_device\<close> is a function of \<^verbatim>\<open>pygod/utils\<close>, not under
  \<^verbatim>\<open>src/\<close>: a parameter. \<open>x\<close> is the initial value of \<open>ext\<close>.
\<close>

definition DeepDetector_init ::
  "(int \<Rightarrow> error + string) \<Rightarrow> init_args \<Rightarrow> 'x \<Rightarrow> error + ('m, 'x) DeepDetector" where
  "DeepDetector_init validate_device a x =
     (case Detector_init (arg_contamination a) (arg_verbose a) of
        Inl e \<Rightarrow> Inl e
      | Inr base \<Rightarrow>
          (case validate_device (arg_gpu a) of
             Inl e \<Rightarrow> Inl e
           | Inr dev \<Rightarrow>
               (case (case arg_num_neigh a of
                        NeighInt k \<Rightarrow> Inr (replicate (nat (arg_num_layers a)) k)
                      | NeighList l \<Rightarrow>
                          if int (length l) \<noteq> arg_num_layers a
                          then Inl (ValueError ''Number of neighbors should have the same length'')
                          else Inr l
                      | NeighOther \<Rightarrow>
                          Inl (ValueError ''Number of neighbors must be int or list of int''))
                of
                  Inl e \<Rightarrow> Inl e
                | Inr nn \<Rightarrow>
                    Inr \<lparr>contamination = contamination base, verbose = verbose base,
                         decision_score = decision_score base,
                         threshold = threshold base, label = label base,
                         in_dim = None, num_nodes = None,
                         hid_dim = arg_hid_dim a, num_layers = arg_num_layers a,
                         dropout = arg_dropout a, weight_decay = arg_weight_decay a,
                         lr = arg_lr a, epoch = arg_epoch a, device = dev,
                         batch_size = arg_batch_size a, gan = arg_gan a, num_neigh = nn,
                         model = None, save_emb = arg_save_emb a,
                         emb = (if arg_save_emb a then PyNone else Absent),
                         compile_model = arg_compile_model a, ext = x\<rparr>)))"

section \<open>\<^verbatim>\<open>DeepDetector.fit\<close>\<close>

text \<open>
  The loss accumulators of an epoch, as the pair \<open>(epoch_loss_g, epoch_loss_d)\<close> under
  \<^verbatim>\<open>gan\<close> and with \<open>epoch_loss\<close> in the first component otherwise.
  \<^verbatim>\<open>loss[0]\<close> on a scalar loss and \<^verbatim>\<open>loss.item()\<close> on a pair raise.
\<close>

definition fit_accumulate :: "bool \<Rightarrow> loss \<Rightarrow> nat \<Rightarrow> real \<times> real \<Rightarrow> error + real \<times> real" where
  "fit_accumulate g l bs acc =
     (if g then
        (case l of
           LossPair lg ld \<Rightarrow> Inr (fst acc + lg * real bs, snd acc + ld * real bs)
         | Scalar _ \<Rightarrow> Inl IndexError)
      else
        (case l of
           Scalar v \<Rightarrow> Inr (fst acc + v * real bs, snd acc)
         | LossPair _ _ \<Rightarrow> Inl (AttributeError ''item'')))"

text \<open>
  The copy of the model's embedding rows of a batch into \<^verbatim>\<open>self.emb\<close>. With
  \<open>as_pair\<close> the source writes \<^verbatim>\<open>self.emb[0]\<close> and \<^verbatim>\<open>self.emb[1]\<close> from
  \<^verbatim>\<open>self.model.emb[0]\<close> and \<^verbatim>\<open>self.model.emb[1]\<close>; otherwise it writes
  \<^verbatim>\<open>self.emb\<close> from \<^verbatim>\<open>self.model.emb\<close>. The right-hand side is evaluated
  first. A buffer and a model embedding of different kinds fail (here with
  \<open>RuntimeError\<close> or \<open>TypeError\<close>). The result carries the buffer as the statement
  leaves it: the first matrix of a pair is already written when the second write fails.
\<close>

definition emb_write ::
  "bool \<Rightarrow> emb attr \<Rightarrow> emb option \<Rightarrow> nat list \<Rightarrow> nat \<Rightarrow> (error + unit) \<times> emb attr" where
  "emb_write as_pair buf src idx bs =
     (if as_pair then
        (case src of
           None \<Rightarrow> (Inl (AttributeError ''emb''), buf)
         | Some (Emb r) \<Rightarrow> (Inl RuntimeError, buf)
         | Some (EmbPair r0 r1) \<Rightarrow>
             (case buf of
                Absent \<Rightarrow> (Inl (AttributeError ''emb''), buf)
              | PyNone \<Rightarrow> (Inl TypeError, buf)
              | Val (Emb t) \<Rightarrow> (Inl RuntimeError, buf)
              | Val (EmbPair t0 t1) \<Rightarrow>
                  (case index_put t0 idx (take bs r0) of
                     Inl e \<Rightarrow> (Inl e, buf)
                   | Inr t0' \<Rightarrow>
                       (case index_put t1 idx (take bs r1) of
                          Inl e \<Rightarrow> (Inl e, Val (EmbPair t0' t1))
                        | Inr t1' \<Rightarrow> (Inr (), Val (EmbPair t0' t1'))))))
      else
        (case src of
           None \<Rightarrow> (Inl (AttributeError ''emb''), buf)
         | Some (EmbPair r0 r1) \<Rightarrow> (Inl (AttributeError ''cpu''), buf)
         | Some (Emb r) \<Rightarrow>
             (case buf of
                Absent \<Rightarrow> (Inl (AttributeError ''emb''), buf)
              | PyNone \<Rightarrow> (Inl TypeError, buf)
              | Val (EmbPair t0 t1) \<Rightarrow> (Inl TypeError, buf)
              | Val (Emb t) \<Rightarrow>
                  (case index_put t idx (take bs r) of
                     Inl e \<Rightarrow> (Inl e, buf)
                   | Inr t' \<Rightarrow> (Inr (), Val (Emb t'))))))"

text \<open>
  Lines 486 to 496 of \<^verbatim>\<open>base.py\<close>: the calls on the optimizers and the loss at the
  end of a training batch, in the order the source makes them.
\<close>

definition train_ops :: "bool \<Rightarrow> torch_call list" where
  "train_ops g =
     (if g then
        [ZeroGrad Opt_g, Backward (Component 0), Step Opt_g,
         ZeroGrad Opt_d, Backward (Component 0), Step Opt_d]
      else
        [ZeroGrad Optimizer, Backward Whole, Step Optimizer])"

fun run_torch ::
  "('g, 'b, 'm, 'x) hooks \<Rightarrow> torch_call list \<Rightarrow> loss \<Rightarrow> 'm \<Rightarrow> (error + unit) \<times> 'm" where
  "run_torch H [] l m = (Inr (), m)"
| "run_torch H (c # cs) l m =
     (case torch H c l m of
        Inl e \<Rightarrow> (Inl e, m)
      | Inr m' \<Rightarrow> run_torch H cs l m')"

text \<open>The body of the loop over the batches of one epoch (lines 464 to 496).\<close>

definition fit_batch ::
  "('g, 'b, 'm, 'x) hooks \<Rightarrow> 'b \<Rightarrow> real \<times> real \<Rightarrow> ('m, 'x) DeepDetector \<Rightarrow>
   (error + real \<times> real) \<times> ('m, 'x) DeepDetector" where
  "fit_batch H sampled_data acc d =
     (let bs = sd_batch_size H sampled_data;
          node_idx = sd_n_id H sampled_data
      in case forward_model H d sampled_data of
           Inl e \<Rightarrow> (Inl e, d)
         | Inr (l, score, m, x) \<Rightarrow>
             let d = d\<lparr>model := Some m, ext := x\<rparr>
             in (case fit_accumulate (gan d) l bs acc of
                  Inl e \<Rightarrow> (Inl e, d)
                | Inr acc' \<Rightarrow>
                    (case (if save_emb d
                           then (case emb d of
                                   Absent \<Rightarrow> (Inl (AttributeError ''emb''), emb d)
                                 | PyNone \<Rightarrow> emb_write False (emb d) (model_emb H m) (take bs node_idx) bs
                                 | Val (Emb t) \<Rightarrow> emb_write False (emb d) (model_emb H m) (take bs node_idx) bs
                                 | Val (EmbPair t0 t1) \<Rightarrow> emb_write True (emb d) (model_emb H m) (take bs node_idx) bs)
                           else (Inr (), emb d)) of
                       (Inl e, em) \<Rightarrow> (Inl e, d\<lparr>emb := em\<rparr>)
                     | (Inr _, em) \<Rightarrow>
                         let d = d\<lparr>emb := em\<rparr>
                         in (case decision_score d of
                               None \<Rightarrow> (Inl TypeError, d)
                             | Some ds \<Rightarrow>
                                 (case index_put ds (take bs node_idx) score of
                                    Inl e \<Rightarrow> (Inl e, d)
                                  | Inr ds' \<Rightarrow>
                                      let d = d\<lparr>decision_score := Some ds'\<rparr>
                                      in (case run_torch H (train_ops (gan d)) l m of
                                            (Inl e, m') \<Rightarrow> (Inl e, d\<lparr>model := Some m'\<rparr>)
                                          | (Inr _, m') \<Rightarrow> (Inr acc', d\<lparr>model := Some m'\<rparr>)))))))"

fun fit_batches ::
  "('g, 'b, 'm, 'x) hooks \<Rightarrow> 'b list \<Rightarrow> real \<times> real \<Rightarrow> ('m, 'x) DeepDetector \<Rightarrow>
   (error + real \<times> real) \<times> ('m, 'x) DeepDetector" where
  "fit_batches H [] acc d = (Inr acc, d)"
| "fit_batches H (b # bs) acc d =
     (case fit_batch H b acc d of
        (Inl e, d') \<Rightarrow> (Inl e, d')
      | (Inr acc', d') \<Rightarrow> fit_batches H bs acc' d')"

text \<open>
  Lines 498 to 502: the loss value handed to the logger. Under \<^verbatim>\<open>gan\<close> the source
  reads the attributes \<^verbatim>\<open>self.epoch_loss_g\<close> and \<^verbatim>\<open>self.epoch_loss_d\<close>
  (not the local accumulators); \<^verbatim>\<open>base.py\<close> never assigns them, so they are
  subclass attributes. Dividing by a node count of zero raises.
\<close>

definition fit_loss_value ::
  "('g, 'b, 'm, 'x) hooks \<Rightarrow> nat \<Rightarrow> real \<times> real \<Rightarrow> ('m, 'x) DeepDetector \<Rightarrow> error + real \<times> real" where
  "fit_loss_value H N acc d =
     (if gan d then
        (case epoch_loss_g H (ext d) of
           None \<Rightarrow> Inl (AttributeError ''epoch_loss_g'')
         | Some lg \<Rightarrow>
             if N = 0 then Inl ZeroDivisionError
             else (case epoch_loss_d H (ext d) of
                     None \<Rightarrow> Inl (AttributeError ''epoch_loss_d'')
                   | Some ld \<Rightarrow> Inr (lg / real N, ld / real N)))
      else if N = 0 then Inl ZeroDivisionError
      else Inr (fst acc / real N, 0))"

text \<open>The loop over \<^verbatim>\<open>range(self.epoch)\<close>; \<open>loader i\<close> are the batches of pass \<open>i\<close>.\<close>

fun fit_epochs ::
  "('g, 'b, 'm, 'x) hooks \<Rightarrow> nat \<Rightarrow> (nat \<Rightarrow> 'b list) \<Rightarrow> nat list \<Rightarrow> ('m, 'x) DeepDetector \<Rightarrow>
   (error + unit) \<times> ('m, 'x) DeepDetector" where
  "fit_epochs H N loader [] d = (Inr (), d)"
| "fit_epochs H N loader (ep # eps) d =
     (case fit_batches H (loader ep) (0, 0) d of
        (Inl e, d') \<Rightarrow> (Inl e, d')
      | (Inr acc, d') \<Rightarrow>
          (case fit_loss_value H N acc d' of
             Inl e \<Rightarrow> (Inl e, d')
           | Inr _ \<Rightarrow> fit_epochs H N loader eps d'))"

definition fit ::
  "('g, 'b, 'm, 'x) hooks \<Rightarrow> 'g \<Rightarrow> int list option \<Rightarrow> ('m, 'x) DeepDetector \<Rightarrow>
   (error + unit) \<times> ('m, 'x) DeepDetector" where
  "fit H data lab d =
     (case process_graph H d data of
        Inl e \<Rightarrow> (Inl e, d)
      | Inr x \<Rightarrow>
          let d = d\<lparr>ext := x\<rparr>;
              d = d\<lparr>num_nodes := Some (fst (x_shape H data)),
                    in_dim := Some (snd (x_shape H data))\<rparr>;
              d = (if batch_size d = 0 then d\<lparr>batch_size := int (fst (x_shape H data))\<rparr> else d)
          in (case NeighborLoader H data (num_neigh d) (batch_size d) of
               Inl e \<Rightarrow> (Inl e, d)
             | Inr loader \<Rightarrow>
                 (case init_model H d of
                    Inl e \<Rightarrow> (Inl e, d)
                  | Inr (m, em) \<Rightarrow>
                      let d = d\<lparr>emb := em, model := Some m\<rparr>;
                          d = (if compile_model d then d\<lparr>model := Some (compile H m)\<rparr> else d);
                          d = d\<lparr>model := map_option (model_train H) (model d)\<rparr>;
                          d = d\<lparr>decision_score := Some (replicate (fst (x_shape H data)) 0)\<rparr>
                      in (case fit_epochs H (fst (x_shape H data)) loader [0 ..< nat (epoch d)] d of
                            (Inl e, d') \<Rightarrow> (Inl e, d')
                          | (Inr _, d') \<Rightarrow> process_decision_score d'))))"

section \<open>\<^verbatim>\<open>DeepDetector.decision_function\<close>\<close>

text \<open>
  Lines 549 to 553: under \<^verbatim>\<open>gan\<close> the generator loss is added up and the
  discriminator loss is overwritten; without it the loss is overwritten.
\<close>

definition df_accumulate :: "bool \<Rightarrow> loss \<Rightarrow> nat \<Rightarrow> real \<times> real \<Rightarrow> error + real \<times> real" where
  "df_accumulate g l bs acc =
     (if g then
        (case l of
           LossPair lg ld \<Rightarrow> Inr (fst acc + lg * real bs, ld * real bs)
         | Scalar _ \<Rightarrow> Inl IndexError)
      else
        (case l of
           Scalar v \<Rightarrow> Inr (v * real bs, snd acc)
         | LossPair _ _ \<Rightarrow> Inl (AttributeError ''item'')))"

text \<open>
  The body of the loop over the batches (lines 536 to 555). The state of the loop is the
  loss accumulators and the local tensor \<^verbatim>\<open>outlier_score\<close>.
\<close>

definition df_batch ::
  "('g, 'b, 'm, 'x) hooks \<Rightarrow> 'b \<Rightarrow> (real \<times> real) \<times> real list \<Rightarrow> ('m, 'x) DeepDetector \<Rightarrow>
   (error + (real \<times> real) \<times> real list) \<times> ('m, 'x) DeepDetector" where
  "df_batch H sampled_data st d =
     (case forward_model H d sampled_data of
        Inl e \<Rightarrow> (Inl e, d)
      | Inr (l, score, m, x) \<Rightarrow>
          let d = d\<lparr>model := Some m, ext := x\<rparr>;
              bs = sd_batch_size H sampled_data;
              node_idx = sd_n_id H sampled_data
          in (case (if save_emb d
                    then emb_write (case hid_dim d of HidTuple _ _ \<Rightarrow> True | HidInt _ \<Rightarrow> False)
                           (emb d) (model_emb H m) (take bs node_idx) bs
                    else (Inr (), emb d)) of
                (Inl e, em) \<Rightarrow> (Inl e, d\<lparr>emb := em\<rparr>)
              | (Inr _, em) \<Rightarrow>
                  let d = d\<lparr>emb := em\<rparr>
                  in (case df_accumulate (gan d) l bs (fst st) of
                        Inl e \<Rightarrow> (Inl e, d)
                      | Inr acc' \<Rightarrow>
                          (case index_put (snd st) (take bs node_idx) score of
                             Inl e \<Rightarrow> (Inl e, d)
                           | Inr outlier_score \<Rightarrow> (Inr (acc', outlier_score), d)))))"

fun df_batches ::
  "('g, 'b, 'm, 'x) hooks \<Rightarrow> 'b list \<Rightarrow> (real \<times> real) \<times> real list \<Rightarrow> ('m, 'x) DeepDetector \<Rightarrow>
   (error + (real \<times> real) \<times> real list) \<times> ('m, 'x) DeepDetector" where
  "df_batches H [] st d = (Inr st, d)"
| "df_batches H (b # bs) st d =
     (case df_batch H b st d of
        (Inl e, d') \<Rightarrow> (Inl e, d')
      | (Inr st', d') \<Rightarrow> df_batches H bs st' d')"

definition zeros :: "nat \<Rightarrow> nat \<Rightarrow> real list list" where
  "zeros n h = replicate n (replicate h 0)"

definition decision_function ::
  "('g, 'b, 'm, 'x) hooks \<Rightarrow> 'g \<Rightarrow> int list option \<Rightarrow> ('m, 'x) DeepDetector \<Rightarrow>
   (error + real list) \<times> ('m, 'x) DeepDetector" where
  "decision_function H data lab d =
     (case process_graph H d data of
        Inl e \<Rightarrow> (Inl e, d)
      | Inr x \<Rightarrow>
          let d = d\<lparr>ext := x\<rparr>
          in (case NeighborLoader H data (num_neigh d) (batch_size d) of
                Inl e \<Rightarrow> (Inl e, d)
              | Inr loader \<Rightarrow>
                  (case model d of
                     None \<Rightarrow> (Inl (AttributeError ''eval''), d)
                   | Some m \<Rightarrow>
                       let d = d\<lparr>model := Some (model_eval H m)\<rparr>;
                           N = fst (x_shape H data);
                           outlier_score = replicate N 0;
                           d = (if save_emb d
                                then (case hid_dim d of
                                        HidTuple h0 h1 \<Rightarrow> d\<lparr>emb := Val (EmbPair (zeros N h0) (zeros N h1))\<rparr>
                                      | HidInt h \<Rightarrow> d\<lparr>emb := Val (Emb (zeros N h))\<rparr>)
                                else d)
                       in (case df_batches H (loader 0) ((0, 0), outlier_score) d of
                             (Inl e, d') \<Rightarrow> (Inl e, d')
                           | (Inr st, d') \<Rightarrow>
                               if N = 0 then (Inl ZeroDivisionError, d')
                               else (Inr (snd st), d')))))"

section \<open>\<^verbatim>\<open>predict\<close>\<close>

text \<open>
  The values \<^verbatim>\<open>predict\<close> can return, and its result: the only output unwrapped
  when there is exactly one, the tuple of the outputs otherwise.
\<close>

datatype out_value = Pred "int list" | Score "real list" | Prob "fl list" | Conf "real list"
  | Embedding "emb option"

datatype result = Unwrapped out_value | Tuple "out_value list"

text \<open>Lines 189 to 204 of \<^verbatim>\<open>Detector.predict\<close>, from the scores on.\<close>

definition predict_outputs ::
  "(real list option \<Rightarrow> real list \<Rightarrow> error + fl list) \<Rightarrow> ('z Detector_scheme) \<Rightarrow> real list \<Rightarrow>
   bool \<Rightarrow> bool \<Rightarrow> bool \<Rightarrow> string \<Rightarrow> bool \<Rightarrow> error + result" where
  "predict_outputs unify d score return_pred return_score return_prob prob_method return_conf =
     (case (if return_pred
            then (case threshold d of
                    Absent \<Rightarrow> Inl (AttributeError ''threshold_'')
                  | PyNone \<Rightarrow> Inl TypeError
                  | Val th \<Rightarrow> Inr [Pred (map (\<lambda>s. if s > th then 1 else 0) score)])
            else Inr []) of
        Inl e \<Rightarrow> Inl e
      | Inr out1 \<Rightarrow>
          let out2 = (if return_score then out1 @ [Score score] else out1)
          in (case (if return_prob
                    then (case predict_prob unify d score prob_method of
                            Inl e \<Rightarrow> Inl e
                          | Inr prob \<Rightarrow> Inr (out2 @ [Prob prob]))
                    else Inr out2) of
                Inl e \<Rightarrow> Inl e
              | Inr out3 \<Rightarrow>
                  (case (if return_conf
                         then (case predict_conf d score of
                                 Inl e \<Rightarrow> Inl e
                               | Inr conf \<Rightarrow> Inr (out3 @ [Conf conf]))
                         else Inr out3) of
                     Inl e \<Rightarrow> Inl e
                   | Inr out4 \<Rightarrow>
                       Inr (if length out4 = 1 then Unwrapped (hd out4) else Tuple out4))))"

text \<open>
  \<^verbatim>\<open>Detector.predict\<close>, with \<^verbatim>\<open>self.decision_function\<close> bound to the method
  of \<^verbatim>\<open>DeepDetector\<close>.
\<close>

definition Detector_predict ::
  "('g, 'b, 'm, 'x) hooks \<Rightarrow> 'g option \<Rightarrow> int list option \<Rightarrow>
   bool \<Rightarrow> bool \<Rightarrow> bool \<Rightarrow> string \<Rightarrow> bool \<Rightarrow> ('m, 'x) DeepDetector \<Rightarrow>
   (error + result) \<times> ('m, 'x) DeepDetector" where
  "Detector_predict H data lab return_pred return_score return_prob prob_method return_conf d =
     (case is_fitted d of
        Inl e \<Rightarrow> (Inl e, d)
      | Inr _ \<Rightarrow>
          (case (case data of
                   None \<Rightarrow>
                     (case decision_score d of
                        None \<Rightarrow> (Inl TypeError, d)
                      | Some score \<Rightarrow> (Inr score, d))
                 | Some g \<Rightarrow> decision_function H g lab d) of
             (Inl e, d') \<Rightarrow> (Inl e, d')
           | (Inr score, d') \<Rightarrow>
               (predict_outputs (unify_prob H) d' score
                  return_pred return_score return_prob prob_method return_conf, d')))"

text \<open>\<^verbatim>\<open>DeepDetector.predict\<close>, the override with \<^verbatim>\<open>return_emb\<close>.\<close>

definition predict ::
  "('g, 'b, 'm, 'x) hooks \<Rightarrow> 'g option \<Rightarrow> int list option \<Rightarrow>
   bool \<Rightarrow> bool \<Rightarrow> bool \<Rightarrow> string \<Rightarrow> bool \<Rightarrow> bool \<Rightarrow> ('m, 'x) DeepDetector \<Rightarrow>
   (error + result) \<times> ('m, 'x) DeepDetector" where
  "predict H data lab return_pred return_score return_prob prob_method return_conf return_emb d =
     (let d = (if return_emb then d\<lparr>save_emb := True\<rparr> else d)
      in (case Detector_predict H data lab
                 return_pred return_score return_prob prob_method return_conf d of
            (Inl e, d') \<Rightarrow> (Inl e, d')
          | (Inr out, d') \<Rightarrow>
              if return_emb then
                (case emb d' of
                   Absent \<Rightarrow> (Inl (AttributeError ''emb''), d')
                 | PyNone \<Rightarrow>
                     (Inr (case out of
                             Tuple os \<Rightarrow> Tuple (os @ [Embedding None])
                           | Unwrapped v \<Rightarrow> Tuple [v, Embedding None]), d')
                 | Val em \<Rightarrow>
                     (Inr (case out of
                             Tuple os \<Rightarrow> Tuple (os @ [Embedding (Some em)])
                           | Unwrapped v \<Rightarrow> Tuple [v, Embedding (Some em)]), d'))
              else (Inr out, d')))"

section \<open>The statements of the specification\<close>


text \<open>The linear probability as the specification words it.\<close>

definition clamp :: "real \<Rightarrow> real \<Rightarrow> real \<Rightarrow> real" where
  "clamp x lo hi = (if x < lo then lo else if hi < x then hi else x)"

definition spec_linear_prob :: "real list \<Rightarrow> real \<Rightarrow> real" where
  "spec_linear_prob train s =
     clamp ((s - Min (set train)) / (Max (set train) - Min (set train))) 0 1"

text \<open>
  The attributes that neither a training batch nor an inference batch assigns, collected:
  everything but \<^verbatim>\<open>decision_score_\<close>, \<^verbatim>\<open>model\<close>, \<^verbatim>\<open>emb\<close> and the
  subclass attributes.
\<close>

definition cfg ::
  "('m, 'x) DeepDetector \<Rightarrow>
   real \<times> int \<times> real attr \<times> int list attr \<times> nat option \<times> nat option \<times> hid \<times> int \<times> real \<times>
   real \<times> real \<times> int \<times> string \<times> int \<times> bool \<times> int list \<times> bool \<times> bool" where
  "cfg d =
     (contamination d, verbose d, threshold d, label d, in_dim d, num_nodes d, hid_dim d,
      num_layers d, dropout d, weight_decay d, lr d, epoch d, device d, batch_size d, gan d,
      num_neigh d, save_emb d, compile_model d)"

text \<open>The number of stored scores, when there are any.\<close>

definition score_len :: "('m, 'x) DeepDetector \<Rightarrow> nat option" where
  "score_len d = map_option length (decision_score d)"

text \<open>
  The construction parameters that no method assigns after construction (the two others of
  the list, \<^verbatim>\<open>batch_size\<close> and \<^verbatim>\<open>save_emb\<close>, are assigned by
  \<^verbatim>\<open>fit\<close> and by \<^verbatim>\<open>predict\<close>).
\<close>

definition same_params :: "('m, 'x) DeepDetector \<Rightarrow> ('m, 'x) DeepDetector \<Rightarrow> bool" where
  "same_params d d' \<longleftrightarrow>
     hid_dim d' = hid_dim d \<and> num_layers d' = num_layers d \<and> dropout d' = dropout d \<and>
     weight_decay d' = weight_decay d \<and> lr d' = lr d \<and> epoch d' = epoch d \<and>
     num_neigh d' = num_neigh d \<and> gan d' = gan d \<and> device d' = device d"

text \<open>
  What a \<^verbatim>\<open>step\<close> of an optimizer applies. \<^verbatim>\<open>backward\<close> adds the gradient of
  its loss to the gradient buffers of the parameters, \<^verbatim>\<open>zero_grad\<close> of an optimizer
  clears the buffers of its own parameters, and \<^verbatim>\<open>step\<close> updates its parameters
  from their buffers. \<open>stepped_on p [] cs\<close> is the list of the losses back-propagated
  between the last \<^verbatim>\<open>zero_grad\<close> of \<open>p\<close> and its first \<^verbatim>\<open>step\<close> in the
  calls \<open>cs\<close>: the losses that step descends on.
\<close>

fun stepped_on :: "optimizer \<Rightarrow> lossref list \<Rightarrow> torch_call list \<Rightarrow> lossref list option" where
  "stepped_on p acc [] = None"
| "stepped_on p acc (ZeroGrad q # cs) = stepped_on p (if q = p then [] else acc) cs"
| "stepped_on p acc (Backward l # cs) = stepped_on p (acc @ [l]) cs"
| "stepped_on p acc (Step q # cs) = (if q = p then Some acc else stepped_on p acc cs)"

section \<open>A concrete subclass for the examples\<close>

text \<open>
  A graph is its number of nodes (with one feature column); the sampler yields the whole
  graph as one batch \<open>(batch_size, n_id)\<close>; the model is the list of the torch calls made on
  it so far; node \<open>i\<close> scores \<open>f i\<close>; the loss is \<open>1\<close>, or the pair \<open>(1, 2)\<close> under
  \<^verbatim>\<open>gan\<close>. The one subclass attribute counts the calls of
  \<^verbatim>\<open>process_graph\<close>. As in \<^verbatim>\<open>src/\<close>, nothing assigns
  \<^verbatim>\<open>epoch_loss_g\<close> or \<^verbatim>\<open>epoch_loss_d\<close>.
\<close>

definition example_hooks :: "(nat \<Rightarrow> real) \<Rightarrow> (nat, nat \<times> nat list, torch_call list, nat) hooks" where
  "example_hooks f =
     \<lparr>x_shape = (\<lambda>g. (g, 1)),
      process_graph = (\<lambda>d g. Inr (Suc (ext d))),
      NeighborLoader = (\<lambda>g nn bs. Inr (\<lambda>i. [(g, [0 ..< g])])),
      sd_batch_size = fst,
      sd_n_id = snd,
      init_model = (\<lambda>d. Inr ([], emb d)),
      compile = (\<lambda>m. m),
      model_train = (\<lambda>m. m),
      model_eval = (\<lambda>m. m),
      forward_model = (\<lambda>d b. Inr (if gan d then LossPair 1 2 else Scalar 1,
                                     map f (take (fst b) (snd b)),
                                     (case model d of None \<Rightarrow> [] | Some m \<Rightarrow> m), ext d)),
      model_emb = (\<lambda>m. None),
      torch = (\<lambda>c l m. Inr (m @ [c])),
      epoch_loss_g = (\<lambda>x. None),
      epoch_loss_d = (\<lambda>x. None),
      unify_prob = (\<lambda>t s. Inl (OtherError ''unify''))\<rparr>"

definition example_args :: "real \<Rightarrow> int \<Rightarrow> bool \<Rightarrow> init_args" where
  "example_args c ep g =
     \<lparr>arg_hid_dim = HidInt 64, arg_num_layers = 2, arg_dropout = 0, arg_weight_decay = 0,
      arg_contamination = c, arg_lr = 0.004, arg_epoch = ep, arg_gpu = - 1,
      arg_batch_size = 0, arg_num_neigh = NeighInt (- 1), arg_verbose = 0, arg_gan = g,
      arg_save_emb = False, arg_compile_model = False\<rparr>"

definition example_detector :: "real \<Rightarrow> int \<Rightarrow> bool \<Rightarrow> (torch_call list, nat) DeepDetector" where
  "example_detector c ep g =
     \<lparr>contamination = c, verbose = 0, decision_score = None, threshold = Absent, label = Absent,
      in_dim = None, num_nodes = None, hid_dim = HidInt 64, num_layers = 2, dropout = 0,
      weight_decay = 0, lr = 0.004, epoch = ep, device = ''cpu'', batch_size = 0, gan = g,
      num_neigh = [- 1, - 1], model = None, save_emb = False, emb = Absent,
      compile_model = False, ext = 0\<rparr>"

text \<open>The example detector after \<^verbatim>\<open>fit\<close> on the graph of three nodes scoring \<open>1, 2, 3\<close>.\<close>

definition example_fitted :: "(torch_call list, nat) DeepDetector" where
  "example_fitted =
     \<lparr>contamination = 1 / 2, verbose = 0, decision_score = Some [1, 2, 3], threshold = Val 2,
      label = Val [0, 0, 1], in_dim = Some 1, num_nodes = Some 3, hid_dim = HidInt 64,
      num_layers = 2, dropout = 0, weight_decay = 0, lr = 0.004, epoch = 1, device = ''cpu'',
      batch_size = 3, gan = False, num_neigh = [- 1, - 1],
      model = Some [ZeroGrad Optimizer, Backward Whole, Step Optimizer], save_emb = False,
      emb = Absent, compile_model = False, ext = 1\<rparr>"

section \<open>Auxiliary facts\<close>

subsection \<open>Index assignment\<close>

lemma length_put_all: "length (put_all t idx v) = length t"
  by (induction t idx v rule: put_all.induct) simp_all

lemma index_put_length: "index_put t idx v = Inr t' \<Longrightarrow> length t' = length t"
  by (auto simp: index_put_def length_put_all split: if_splits)

lemma put_all_upt:
  "length v = n \<Longrightarrow> length t = k + n \<Longrightarrow> put_all t [k ..< k + n] v = take k t @ v"
proof (induction n arbitrary: k t v)
  case 0
  then show ?case by simp
next
  case (Suc n)
  then obtain x vs where v: "v = x # vs" by (cases v) auto
  have "put_all t [k ..< k + Suc n] v = put_all (t[k := x]) [Suc k ..< Suc k + n] vs"
    using v by (simp add: upt_rec)
  also have "\<dots> = take (Suc k) (t[k := x]) @ vs"
    using Suc.prems v by (intro Suc.IH) auto
  also have "\<dots> = take k t @ v"
    using Suc.prems v by (simp add: take_Suc_conv_app_nth)
  finally show ?case .
qed

text \<open>Writing a full batch \<open>0, \<dots>, n - 1\<close> replaces the whole tensor.\<close>

lemma index_put_full: "length v = n \<Longrightarrow> index_put (replicate n z) [0 ..< n] v = Inr v"
  using put_all_upt [of v n "replicate n z" 0] by (simp add: index_put_def)

subsection \<open>The loops keep every attribute but the scores, the model and the embedding\<close>

lemma cfg_update:
  "cfg (d\<lparr>decision_score := s\<rparr>) = cfg d" "cfg (d\<lparr>model := m\<rparr>) = cfg d"
  "cfg (d\<lparr>emb := e\<rparr>) = cfg d" "cfg (d\<lparr>ext := x\<rparr>) = cfg d"
  by (simp_all add: cfg_def)

lemma fit_batch_cfg: "cfg (snd (fit_batch H b acc d)) = cfg d"
  unfolding fit_batch_def Let_def
  by (simp add: cfg_update split: sum.splits prod.splits option.splits)

lemma fit_batches_cfg: "cfg (snd (fit_batches H bs acc d)) = cfg d"
proof (induction bs arbitrary: acc d)
  case Nil
  show ?case by simp
next
  case (Cons b bs)
  obtain r d1 where b: "fit_batch H b acc d = (r, d1)"
    by (cases "fit_batch H b acc d")
  have d1: "cfg d1 = cfg d"
    using fit_batch_cfg [of H b acc d] b by simp
  show ?case
  proof (cases r)
    case (Inl e)
    with b d1 show ?thesis by simp
  next
    case (Inr acc')
    with b d1 Cons.IH [of acc' d1] show ?thesis by simp
  qed
qed

lemma fit_epochs_cfg: "cfg (snd (fit_epochs H N loader es d)) = cfg d"
proof (induction es arbitrary: d)
  case Nil
  show ?case by simp
next
  case (Cons ep es)
  obtain r d1 where b: "fit_batches H (loader ep) (0, 0) d = (r, d1)"
    by (cases "fit_batches H (loader ep) (0, 0) d")
  have d1: "cfg d1 = cfg d"
    using fit_batches_cfg [of H "loader ep" "(0, 0)" d] b by simp
  show ?case
  proof (cases r)
    case (Inl e)
    with b d1 show ?thesis by simp
  next
    case (Inr acc)
    with b d1 Cons.IH [of d1] show ?thesis
      by (simp split: sum.splits)
  qed
qed

lemma fit_epochs_contamination:
  "fit_epochs H N loader es d = (r, d') \<Longrightarrow> contamination d' = contamination d"
  using fit_epochs_cfg [of H N loader es d] by (simp add: cfg_def)

subsection \<open>Training keeps the number of scores\<close>

lemma score_len_update:
  "score_len (d\<lparr>model := m\<rparr>) = score_len d" "score_len (d\<lparr>emb := e\<rparr>) = score_len d"
  "score_len (d\<lparr>ext := x\<rparr>) = score_len d"
  "score_len (d\<lparr>decision_score := Some s\<rparr>) = Some (length s)"
  by (simp_all add: score_len_def)

lemma fit_batch_score_len: "score_len (snd (fit_batch H b acc d)) = score_len d"
  unfolding fit_batch_def Let_def
  by (auto simp: score_len_update score_len_def index_put_length
        split: sum.splits prod.splits option.splits)


lemma fit_batches_score_len: "score_len (snd (fit_batches H bs acc d)) = score_len d"
proof (induction bs arbitrary: acc d)
  case Nil
  show ?case by simp
next
  case (Cons b bs)
  obtain r d1 where b: "fit_batch H b acc d = (r, d1)"
    by (cases "fit_batch H b acc d")
  have d1: "score_len d1 = score_len d"
    using fit_batch_score_len [of H b acc d] b by simp
  show ?case
  proof (cases r)
    case (Inl e)
    with b d1 show ?thesis by simp
  next
    case (Inr acc')
    with b d1 Cons.IH [of acc' d1] show ?thesis by simp
  qed
qed

lemma fit_epochs_score_len: "score_len (snd (fit_epochs H N loader es d)) = score_len d"
proof (induction es arbitrary: d)
  case Nil
  show ?case by simp
next
  case (Cons ep es)
  obtain r d1 where b: "fit_batches H (loader ep) (0, 0) d = (r, d1)"
    by (cases "fit_batches H (loader ep) (0, 0) d")
  have d1: "score_len d1 = score_len d"
    using fit_batches_score_len [of H "loader ep" "(0, 0)" d] b by simp
  show ?case
  proof (cases r)
    case (Inl e)
    with b d1 show ?thesis by simp
  next
    case (Inr acc)
    with b d1 Cons.IH [of d1] show ?thesis
      by (simp split: sum.splits)
  qed
qed

lemma fit_epochs_score_lenD:
  "fit_epochs H N loader es d = (r, d') \<Longrightarrow> score_len d' = score_len d"
  using fit_epochs_score_len [of H N loader es d] by simp

subsection \<open>Threshold and labels\<close>

lemma process_decision_score_Inr:
  "process_decision_score d = (Inr u, d') \<Longrightarrow>
   \<exists>sc th. decision_score d = Some sc \<and> percentile sc (100 * (1 - contamination d)) = Inr th \<and>
     d' = d\<lparr>threshold := Val th, label := Val (map (\<lambda>s. if th < s then 1 else 0) sc)\<rparr>"
  by (auto simp: process_decision_score_def split: option.splits sum.splits)

lemma process_decision_score_Inl: "process_decision_score d = (Inl e, d') \<Longrightarrow> d' = d"
  by (auto simp: process_decision_score_def split: option.splits sum.splits)

text \<open>A successful \<^verbatim>\<open>fit\<close> ends in \<^verbatim>\<open>_process_decision_score\<close>.\<close>

lemma fit_success:
  assumes "fit H data lab d = (Inr u, d')"
  shows "\<exists>sc th. decision_score d' = Some sc \<and> threshold d' = Val th \<and>
           percentile sc (100 * (1 - contamination d)) = Inr th \<and>
           label d' = Val (map (\<lambda>s. if th < s then 1 else 0) sc)"
  using assms unfolding fit_def Let_def
  by (auto split: sum.splits prod.splits if_splits
        dest!: process_decision_score_Inr fit_epochs_contamination)

lemma fit_success_length:
  assumes "fit H data lab d = (Inr u, d')"
  shows "\<exists>sc. decision_score d' = Some sc \<and> length sc = fst (x_shape H data)"
  using assms unfolding fit_def Let_def
  by (auto split: sum.splits prod.splits if_splits
        dest!: process_decision_score_Inr fit_epochs_score_lenD simp: score_len_def)

lemma fit_epochs_cfgD: "fit_epochs H N loader es d = (r, d') \<Longrightarrow> cfg d' = cfg d"
  using fit_epochs_cfg [of H N loader es d] by simp

text \<open>
  \<^verbatim>\<open>fit\<close> assigns \<^verbatim>\<open>batch_size\<close> when it is zero, and no other construction
  parameter; a failing \<^verbatim>\<open>fit\<close> assigns neither the threshold nor the labels.
\<close>

lemma fit_frame:
  assumes "fit H data lab d = (r, d')"
  shows "same_params d d' \<and> save_emb d' = save_emb d \<and> contamination d' = contamination d \<and>
         (batch_size d' = batch_size d \<or>
          batch_size d = 0 \<and> batch_size d' = int (fst (x_shape H data)))"
  using assms unfolding fit_def Let_def
  by (cases r)
     (auto split: sum.splits prod.splits if_splits
        dest!: fit_epochs_cfgD process_decision_score_Inr process_decision_score_Inl
        simp: same_params_def cfg_def)


subsection \<open>Inference keeps the scores, the threshold and the labels\<close>

lemma df_batch_cfg: "cfg (snd (df_batch H b st d)) = cfg d"
  unfolding df_batch_def Let_def
  by (simp add: cfg_update split: sum.splits prod.splits)

lemma df_batch_score: "decision_score (snd (df_batch H b st d)) = decision_score d"
  unfolding df_batch_def Let_def
  by (simp split: sum.splits prod.splits)

lemma df_batch_length:
  "df_batch H b st d = (Inr st', d') \<Longrightarrow> length (snd st') = length (snd st)"
  unfolding df_batch_def Let_def
  by (auto split: sum.splits prod.splits if_splits dest: index_put_length)

lemma df_batches_frame:
  "cfg (snd (df_batches H bs st d)) = cfg d \<and>
   decision_score (snd (df_batches H bs st d)) = decision_score d \<and>
   (\<forall>st'. fst (df_batches H bs st d) = Inr st' \<longrightarrow> length (snd st') = length (snd st))"
proof (induction bs arbitrary: st d)
  case Nil
  show ?case by simp
next
  case (Cons b bs)
  obtain r d1 where b: "df_batch H b st d = (r, d1)"
    by (cases "df_batch H b st d")
  have d1: "cfg d1 = cfg d" "decision_score d1 = decision_score d"
    using df_batch_cfg [of H b st d] df_batch_score [of H b st d] b by simp_all
  show ?case
  proof (cases r)
    case (Inl e)
    with b d1 show ?thesis by simp
  next
    case (Inr st1)
    have "length (snd st1) = length (snd st)"
      using b Inr by (auto dest: df_batch_length)
    with Inr b d1 Cons.IH [of st1 d1] show ?thesis by simp
  qed
qed



lemma snd_df_result:
  "snd (case p of (Inl e, d') \<Rightarrow> (Inl e, d')
        | (Inr st, d') \<Rightarrow> if c then (Inl z, d') else (Inr (f st), d')) = snd p"
  by (auto split: prod.splits sum.splits)

lemma decision_function_cfg: "cfg (snd (decision_function H data lab d)) = cfg d"
  unfolding decision_function_def Let_def
  by (simp add: snd_df_result df_batches_frame cfg_update split: sum.splits option.splits hid.splits)






lemma Detector_predict_state:
  "snd (Detector_predict H data lab rp rs rpb pm rc d) = d \<or>
   (\<exists>g. data = Some g \<and>
      snd (Detector_predict H data lab rp rs rpb pm rc d) = snd (decision_function H g lab d))"
  unfolding Detector_predict_def
  by (auto split: sum.splits prod.splits option.splits)

subsection \<open>The statistics\<close>



lemma clamp_torch: "min (max x 0) 1 = clamp x 0 1"
  by (simp add: clamp_def min_def max_def)

subsection \<open>Prediction\<close>




lemma Detector_predict_cfg: "cfg (snd (Detector_predict H data lab rp rs rpb pm rc d)) = cfg d"
  using Detector_predict_state [of H data lab rp rs rpb pm rc d]
  by (auto simp: decision_function_cfg)

lemma snd_predict:
  "snd (predict H data lab rp rs rpb pm rc re d)
     = snd (Detector_predict H data lab rp rs rpb pm rc (if re then d\<lparr>save_emb := True\<rparr> else d))"
  by (auto simp: predict_def Let_def split: prod.splits sum.splits attr.splits)

lemma predict_frame:
  "same_params d (snd (predict H data lab rp rs rpb pm rc re d)) \<and>
   batch_size (snd (predict H data lab rp rs rpb pm rc re d)) = batch_size d \<and>
   save_emb (snd (predict H data lab rp rs rpb pm rc re d)) = (save_emb d \<or> re)"
  using Detector_predict_cfg [of H data lab rp rs rpb pm rc "d\<lparr>save_emb := True\<rparr>"]
    Detector_predict_cfg [of H data lab rp rs rpb pm rc d]
  by (cases re) (simp_all add: snd_predict cfg_def same_params_def)

subsection \<open>The example subclass, evaluated\<close>

lemmas example_run =
  fit_def example_hooks_def example_detector_def Let_def fit_batch_def fit_accumulate_def
  fit_loss_value_def train_ops_def index_put_full process_decision_score_def percentile_def


lemma fit_example:
  "fit (example_hooks (\<lambda>i. real i + 1)) 3 None (example_detector (1 / 2) 1 False)
     = (Inr (), example_fitted)"
proof -
  have m: "map (\<lambda>i. real i + 1) [0 ..< 3] = [1, 2, 3]"
    by (simp add: upt_rec)
  show ?thesis
    by (simp add: example_run m example_fitted_def)
qed



lemma fit_gan_example:
  "fit (example_hooks (\<lambda>i. real i + 1)) 3 None (example_detector (1 / 2) 1 True)
     = (Inl (AttributeError ''epoch_loss_g''),
        (example_detector (1 / 2) 1 True)
          \<lparr>decision_score := Some [1, 2, 3], in_dim := Some 1, num_nodes := Some 3,
           batch_size := 3,
           model := Some [ZeroGrad Opt_g, Backward (Component 0), Step Opt_g,
                          ZeroGrad Opt_d, Backward (Component 0), Step Opt_d],
           ext := 1\<rparr>)"
proof -
  have m: "map (\<lambda>i. real i + 1) [0 ..< 3] = [1, 2, 3]"
    by (simp add: upt_rec)
  show ?thesis
    by (simp add: example_run m)
qed

section \<open>The claims\<close>

text \<open>
  Claim C2. After every successful \<^verbatim>\<open>fit\<close> of a detector with contamination \<open>c\<close>,
  \<^verbatim>\<open>threshold_\<close> is the value at the \<open>100 * (1 - c)\<close> percentile of
  \<^verbatim>\<open>decision_score_\<close>, with linear interpolation between order statistics. The
  detector before the call is arbitrary, fitted or not: every \<^verbatim>\<open>fit\<close> computes the
  threshold anew from the scores it has just stored. (For the scores \<open>1, \<dots>, 100\<close> and
  \<open>c = 0.1\<close> the threshold is \<open>90.1\<close>, as the example after the theorem computes.)
\<close>

theorem threshold_is_percentile:
  assumes "fit H data lab d = (Inr u, d')"
  shows "contamination d' = contamination d \<and>
         (\<exists>sc th. decision_score d' = Some sc \<and>
            percentile sc (100 * (1 - contamination d)) = Inr th \<and> threshold d' = Val th)"
  using fit_success [OF assms] fit_frame [OF assms] by blast

theorem threshold_is_percentile_witness:
  "fst (fit (example_hooks (\<lambda>i. real i + 1)) 100 None (example_detector 0.1 1 False)) = Inr () \<and>
   decision_score (snd (fit (example_hooks (\<lambda>i. real i + 1)) 100 None (example_detector 0.1 1 False)))
     = Some (map (\<lambda>i. real i + 1) [0 ..< 100]) \<and>
   threshold (snd (fit (example_hooks (\<lambda>i. real i + 1)) 100 None (example_detector 0.1 1 False)))
     = Val 90.1"
proof -
  let ?r = "fit (example_hooks (\<lambda>i. real i + 1)) 100 None (example_detector 0.1 1 False)"
  have ok: "fst ?r = Inr ()"
    by (simp add: example_run)
  have sc: "decision_score (snd ?r) = Some (map (\<lambda>i. real i + 1) [0 ..< 100])"
    by (simp add: example_run)
  have "?r = (Inr (), snd ?r)"
    using ok by (simp add: prod_eq_iff)
  from threshold_is_percentile [OF this, THEN conjunct2] obtain th where
    th: "percentile (map (\<lambda>i. real i + 1) [0 ..< 100])
           (100 * (1 - contamination (example_detector 0.1 1 False))) = Inr th"
    and t: "threshold (snd ?r) = Val th"
    using sc by auto
  have "sorted (map (\<lambda>i. real i + 1) [0 ..< 100])"
    by (simp add: sorted_map)
  then have "percentile (map (\<lambda>i. real i + 1) [0 ..< 100])
               (100 * (1 - contamination (example_detector 0.1 1 False))) = Inr 90.1"
    by (simp add: percentile_def example_detector_def sorted_sort_id Let_def del: upt_Suc)
  with th t ok sc show ?thesis by simp
qed

text \<open>
  Claim C3. After every successful \<^verbatim>\<open>fit\<close>, \<^verbatim>\<open>decision_score_\<close> and
  \<^verbatim>\<open>label_\<close> have one entry per node, and for every node index \<open>i\<close> the label is
  \<open>1\<close> exactly when
  \<^verbatim>\<open>decision_score_[i]\<close> strictly exceeds \<^verbatim>\<open>threshold_\<close>, and \<open>0\<close> otherwise:
  a score equal to the threshold is labelled an inlier.
\<close>

theorem labels_follow_threshold:
  assumes "fit H data lab d = (Inr u, d')"
  shows "\<exists>sc th lb. decision_score d' = Some sc \<and> threshold d' = Val th \<and> label d' = Val lb \<and>
           length sc = fst (x_shape H data) \<and> length lb = fst (x_shape H data) \<and>
           (\<forall>i < fst (x_shape H data).
              (lb ! i = 1 \<longleftrightarrow> th < sc ! i) \<and> (lb ! i = 0 \<longleftrightarrow> sc ! i \<le> th))"
proof -
  from fit_success [OF assms] obtain sc th where
    "decision_score d' = Some sc" "threshold d' = Val th"
    "label d' = Val (map (\<lambda>s. if th < s then 1 else 0) sc)"
    by blast
  moreover from this fit_success_length [OF assms] have "length sc = fst (x_shape H data)"
    by simp
  ultimately show ?thesis by auto
qed

theorem labels_follow_threshold_witness:
  "fst (fit (example_hooks (\<lambda>i. real i + 1)) 3 None (example_detector 0.5 1 False)) = Inr () \<and>
   decision_score (snd (fit (example_hooks (\<lambda>i. real i + 1)) 3 None (example_detector 0.5 1 False)))
     = Some [1, 2, 3] \<and>
   threshold (snd (fit (example_hooks (\<lambda>i. real i + 1)) 3 None (example_detector 0.5 1 False)))
     = Val 2 \<and>
   (\<exists>lb. label (snd (fit (example_hooks (\<lambda>i. real i + 1)) 3 None (example_detector 0.5 1 False)))
     = Val lb \<and> lb ! 0 = 0 \<and> lb ! 1 = 0 \<and> lb ! 2 = 1)"
proof -
  let ?r = "fit (example_hooks (\<lambda>i. real i + 1)) 3 None (example_detector 0.5 1 False)"
  have ok: "fst ?r = Inr ()"
    by (simp add: example_run)
  have m: "map (\<lambda>i. real i + 1) [0 ..< 3] = [1, 2, 3]"
    by (simp add: upt_rec)
  have sc: "decision_score (snd ?r) = Some [1, 2, 3]"
    by (simp add: example_run m)
  have th: "threshold (snd ?r) = Val 2"
    by (simp add: example_run m)
  have "?r = (Inr (), snd ?r)"
    using ok by (simp add: prod_eq_iff)
  from labels_follow_threshold [OF this] obtain lb where
    lb: "label (snd ?r) = Val lb"
    and i: "\<forall>i < 3. (lb ! i = 1 \<longleftrightarrow> 2 < [1, 2, 3 :: real] ! i) \<and> (lb ! i = 0 \<longleftrightarrow> [1, 2, 3 :: real] ! i \<le> 2)"
    using sc th by (auto simp: example_hooks_def)
  have "lb ! 0 = 0" "lb ! 1 = 0" "lb ! 2 = 1"
    using i [THEN spec, of 0] i [THEN spec, of 1] i [THEN spec, of 2] by simp_all
  with ok sc th lb show ?thesis by simp
qed

text \<open>
  Claim C4. Constructing a detector succeeds for every contamination \<open>c\<close> with
  \<open>0 < c \<le> 0.5\<close>; for every \<open>c \<le> 0\<close> and every \<open>c > 0.5\<close> it raises the
  configuration error, and it does so first: the constructor of \<^verbatim>\<open>DeepDetector\<close>
  raises this error whatever its other arguments are, before it validates the device or
  the neighbour counts and before it assigns anything.
\<close>

theorem contamination_validated:
  "(0 < c \<and> c \<le> 1 / 2 \<longrightarrow>
      Detector_init c v = Inr \<lparr>contamination = c, verbose = v, decision_score = None,
                               threshold = Absent, label = Absent\<rparr>) \<and>
   (c \<le> 0 \<or> 1 / 2 < c \<longrightarrow>
      Detector_init c v = Inl (ValueError ''contamination must be in (0, 0.5]'') \<and>
      (DeepDetector_init validate_device (a\<lparr>arg_contamination := c\<rparr>) x
         :: error + ('m, 'x) DeepDetector)
        = Inl (ValueError ''contamination must be in (0, 0.5]''))"
  by (auto simp: Detector_init_def DeepDetector_init_def)

theorem contamination_validated_witness:
  "Detector_init (1 / 2) 0 = Inr \<lparr>contamination = 1 / 2, verbose = 0, decision_score = None,
                                   threshold = Absent, label = Absent\<rparr> \<and>
   Detector_init (6 / 10) 0 = Inl (ValueError ''contamination must be in (0, 0.5]'') \<and>
   Detector_init 0 0 = Inl (ValueError ''contamination must be in (0, 0.5]'') \<and>
   (DeepDetector_init (\<lambda>gpu. Inl (OtherError ''no such device''))
      ((example_args (1 / 10) 1 False)\<lparr>arg_contamination := 0, arg_num_neigh := NeighOther\<rparr>) (0 :: nat)
      :: error + (torch_call list, nat) DeepDetector)
     = Inl (ValueError ''contamination must be in (0, 0.5]'')"
proof -
  let ?vd = "\<lambda>gpu :: int. Inl (OtherError ''no such device'') :: error + string"
  let ?a = "(example_args (1 / 10) 1 False)\<lparr>arg_num_neigh := NeighOther\<rparr>"
  note t = contamination_validated [where validate_device = ?vd and a = ?a and x = "0 :: nat"
      and ?'m = "torch_call list"]
  show ?thesis
    using t [of "1 / 2" 0] t [of "6 / 10" 0] t [of 0 0]
    by (simp add: example_args_def)
qed



text \<open>
  Claim C6. For every fitted detector the \<^verbatim>\<open>'linear'\<close> probability of a score vector
  is, entry by entry, \<open>clamp ((s - min train) / (max train - min train), 0, 1)\<close> over the
  stored training scores. Where all training scores are equal the quotient is a float
  division by zero, and the source returns \<open>1\<close> above the common value, \<open>0\<close> below it and
  not-a-number at it. (For the training scores \<open>0, 10\<close> the scores \<open>5\<close>, \<open>-5\<close> and \<open>15\<close>
  map to \<open>0.5\<close>, \<open>0\<close> and \<open>1\<close>, as the example after the theorem computes.)
\<close>

theorem linear_probability:
  assumes "decision_score d = Some train" and "train \<noteq> []"
  shows "(Min (set train) < Max (set train) \<longrightarrow>
            predict_prob u d score ''linear'' = Inr (map (\<lambda>s. Fin (spec_linear_prob train s)) score)) \<and>
         (Min (set train) = Max (set train) \<longrightarrow>
            predict_prob u d score ''linear''
              = Inr (map (\<lambda>s. if Min (set train) < s then Fin 1
                               else if s < Min (set train) then Fin 0 else NaN) score))"
  using assms
  by (auto simp: predict_prob_def predict_prob_linear_def Let_def fdiv_def spec_linear_prob_def
        clamp_torch)

theorem linear_probability_witness:
  "predict_prob (\<lambda>t s. Inl (OtherError ''unify''))
     \<lparr>contamination = 1 / 10, verbose = 0, decision_score = Some [0, 10],
      threshold = Val 9, label = Val [0, 1]\<rparr> [5, - 5, 15] ''linear''
     = Inr [Fin (1 / 2), Fin 0, Fin 1] \<and>
   predict_prob (\<lambda>t s. Inl (OtherError ''unify''))
     \<lparr>contamination = 1 / 10, verbose = 0, decision_score = Some [7, 7],
      threshold = Val 7, label = Val [0, 0]\<rparr> [5, 7, 9] ''linear''
     = Inr [Fin 0, NaN, Fin 1]"
proof -
  let ?u = "\<lambda>(t :: real list option) (s :: real list). Inl (OtherError ''unify'') :: error + fl list"
  let ?d = "\<lparr>contamination = 1 / 10, verbose = 0, decision_score = Some [0, 10 :: real],
             threshold = Val (9 :: real), label = Val [0, 1 :: int]\<rparr>"
  let ?e = "\<lparr>contamination = 1 / 10, verbose = 0, decision_score = Some [7, 7 :: real],
             threshold = Val (7 :: real), label = Val [0, 0 :: int]\<rparr>"
  have "predict_prob ?u ?d [5, - 5, 15] ''linear'' = Inr [Fin (1 / 2), Fin 0, Fin 1]"
    using linear_probability [of ?d "[0, 10]" ?u "[5, - 5, 15]"]
    by (simp add: spec_linear_prob_def clamp_def)
  moreover have "predict_prob ?u ?e [5, 7, 9] ''linear'' = Inr [Fin 0, NaN, Fin 1]"
    using linear_probability [of ?e "[7, 7]" ?u "[5, 7, 9]"]
    by simp
  ultimately show ?thesis by simp
qed










text \<open>
  Claim C10, as stated, fails for two of the listed parameters: \<^verbatim>\<open>fit\<close> on a
  detector constructed with \<^verbatim>\<open>batch_size = 0\<close> stores the node count in
  \<^verbatim>\<open>batch_size\<close>, and \<^verbatim>\<open>predict\<close> with \<^verbatim>\<open>return_emb\<close> sets
  \<^verbatim>\<open>save_emb\<close>, also when the call then raises.
\<close>

theorem parameters_immutable_counterexample:
  "batch_size (example_detector (1 / 2) 1 False) = 0 \<and>
   batch_size (snd (fit (example_hooks (\<lambda>i. real i + 1)) 3 None (example_detector (1 / 2) 1 False)))
     = 3 \<and>
   save_emb example_fitted = False \<and>
   save_emb (snd (predict (example_hooks (\<lambda>i. real i + 1)) None None True False False ''linear''
                    False True example_fitted)) = True"
proof -
  have "save_emb (snd (predict (example_hooks (\<lambda>i. real i + 1)) None None True False False ''linear''
                    False True example_fitted)) = True"
    by (simp add: snd_predict Detector_predict_def is_fitted_def predict_outputs_def example_fitted_def)
  then show ?thesis
    by (simp add: fit_example) (simp add: example_detector_def example_fitted_def)
qed

text \<open>
  Claim C10, amended. No \<^verbatim>\<open>fit\<close>, \<^verbatim>\<open>decision_function\<close> or
  \<^verbatim>\<open>predict\<close> call, returning or raising, changes \<^verbatim>\<open>hid_dim\<close>,
  \<^verbatim>\<open>num_layers\<close>, \<^verbatim>\<open>dropout\<close>, \<^verbatim>\<open>weight_decay\<close>, \<^verbatim>\<open>lr\<close>,
  \<^verbatim>\<open>epoch\<close>, \<^verbatim>\<open>num_neigh\<close>, \<^verbatim>\<open>gan\<close> or \<^verbatim>\<open>device\<close>.
  \<^verbatim>\<open>batch_size\<close> is changed only by \<^verbatim>\<open>fit\<close> and only when it is \<open>0\<close>,
  to the node count of the training graph; \<^verbatim>\<open>save_emb\<close> is changed only by
  \<^verbatim>\<open>predict\<close> and only when \<^verbatim>\<open>return_emb\<close> is set, to true.
\<close>

theorem parameters_after_calls:
  "same_params d (snd (fit H data lab d)) \<and>
   save_emb (snd (fit H data lab d)) = save_emb d \<and>
   (batch_size (snd (fit H data lab d)) = batch_size d \<or>
    batch_size d = 0 \<and> batch_size (snd (fit H data lab d)) = int (fst (x_shape H data))) \<and>
   same_params d (snd (decision_function H data lab d)) \<and>
   save_emb (snd (decision_function H data lab d)) = save_emb d \<and>
   batch_size (snd (decision_function H data lab d)) = batch_size d \<and>
   same_params d (snd (predict H dt lab rp rs rpb pm rc re d)) \<and>
   batch_size (snd (predict H dt lab rp rs rpb pm rc re d)) = batch_size d \<and>
   save_emb (snd (predict H dt lab rp rs rpb pm rc re d)) = (save_emb d \<or> re)"
proof -
  have "fit H data lab d = (fst (fit H data lab d), snd (fit H data lab d))"
    by simp
  note f = fit_frame [OF this]
  have df: "same_params d (snd (decision_function H data lab d)) \<and>
            save_emb (snd (decision_function H data lab d)) = save_emb d \<and>
            batch_size (snd (decision_function H data lab d)) = batch_size d"
    using decision_function_cfg [of H data lab d] by (simp add: cfg_def same_params_def)
  from f df predict_frame [of d H dt lab rp rs rpb pm rc re] show ?thesis
    by blast
qed

text \<open>
  Claim C1 says that under \<^verbatim>\<open>gan\<close> each optimizer steps on its own loss
  component. The source does not: both \<^verbatim>\<open>backward\<close> calls of a training batch are
  on \<^verbatim>\<open>loss[0]\<close>, the generator's component, so the step of the discriminator's
  optimizer descends on the generator loss, as the generator's does, and \<^verbatim>\<open>loss[1]\<close>
  is never back-propagated. The example run records the calls in the model. (The same run
  ends the first epoch with \<^verbatim>\<open>AttributeError\<close>: the loss value reads
  \<^verbatim>\<open>self.epoch_loss_g\<close>, which nothing assigns.)
\<close>

theorem gan_discriminator_steps_on_generator_loss:
  "train_ops True =
     [ZeroGrad Opt_g, Backward (Component 0), Step Opt_g,
      ZeroGrad Opt_d, Backward (Component 0), Step Opt_d] \<and>
   Backward (Component 1) \<notin> set (train_ops True) \<and>
   stepped_on Opt_g [] (train_ops True) = Some [Component 0] \<and>
   stepped_on Opt_d [] (train_ops True) = Some [Component 0] \<and>
   fst (fit (example_hooks (\<lambda>i. real i + 1)) 3 None (example_detector (1 / 2) 1 True))
     = Inl (AttributeError ''epoch_loss_g'') \<and>
   model (snd (fit (example_hooks (\<lambda>i. real i + 1)) 3 None (example_detector (1 / 2) 1 True)))
     = Some [ZeroGrad Opt_g, Backward (Component 0), Step Opt_g,
             ZeroGrad Opt_d, Backward (Component 0), Step Opt_d]"
  by (simp add: fit_gan_example) (simp add: train_ops_def)


end
